theory Spec2Isabelle
  imports Complex_Main "HOL-Library.AList"
begin

section \<open>JavaScript values\<close>

text \<open>
  The remix data, the messages exchanged with the host frame and the arguments of the
  \<open>Remix\<close> methods are all of TypeScript type \<open>any\<close>. They are modelled by one datatype
  of JSON-like values. An object is an association list in insertion order, read with
  \<^const>\<open>map_of\<close>. Finite numbers are rationals; \<open>NaN\<close> is a value of its own, since the
  only thing the program ever inspects of a number is whether it is truthy.
\<close>

datatype jsval =
    JUndefined
  | JNull
  | JBool bool
  | JNum rat
  | JNaN
  | JStr string
  | JArr "jsval list"
  | JObj "(string \<times> jsval) list"

text \<open>JavaScript's \<open>ToBoolean\<close>: what \<open>!x\<close>, \<open>!!x\<close>, \<open>if (x)\<close>, \<open>&&\<close> and \<open>||\<close> test.\<close>

fun truthy :: "jsval \<Rightarrow> bool" where
  "truthy JUndefined = False"
| "truthy JNull = False"
| "truthy (JBool b) = b"
| "truthy (JNum n) = (n \<noteq> 0)"
| "truthy JNaN = False"
| "truthy (JStr s) = (s \<noteq> [])"
| "truthy (JArr xs) = True"
| "truthy (JObj kvs) = True"

definition js_and :: "jsval \<Rightarrow> jsval \<Rightarrow> jsval" where
  "js_and a b = (if truthy a then b else a)"

definition js_or :: "jsval \<Rightarrow> jsval \<Rightarrow> jsval" where
  "js_or a b = (if truthy a then a else b)"

fun nullish :: "jsval \<Rightarrow> bool" where
  "nullish JUndefined = True"
| "nullish JNull = True"
| "nullish v = False"

text \<open>
  The property read \<open>v.k\<close>, for the four keys the class reads (\<open>overrides\<close>,
  \<open>remixData\<close>, \<open>encryptedValue\<close>, \<open>decryptedValue\<close>): an own property of an object, and
  \<open>undefined\<close> on every other value that is not nullish. On \<open>undefined\<close> and \<open>null\<close>
  JavaScript throws a \<open>TypeError\<close>; every call site below either guards the read by a
  truthiness test or turns the nullish case into that error.
\<close>

fun getProp :: "jsval \<Rightarrow> string \<Rightarrow> jsval" where
  "getProp (JObj kvs) k = (case map_of kvs k of None \<Rightarrow> JUndefined | Some v \<Rightarrow> v)"
| "getProp v k = JUndefined"

datatype error = Error string | TypeError

section \<open>The imported helpers\<close>

text \<open>
  Modelled from the spec: \<open>deepmerge\<close> is imported from the package of that name, whose
  code is not part of the source tree. The merge rule is the one of the data model:
  sequence-valued fields are handed to the \<open>arrayMerge\<close> option (the class passes
  \<open>(dest, source) => source\<close>, so the override's sequence replaces the default's),
  mapping-valued fields are merged key by key, recursively, and every other field of the
  source replaces the target's. Keys of the target keep their position; new keys of the
  source are appended in the source's order.
\<close>

function deepmerge :: "(jsval \<Rightarrow> jsval \<Rightarrow> jsval) \<Rightarrow> jsval \<Rightarrow> jsval \<Rightarrow> jsval"
  and mergeObject :: "(jsval \<Rightarrow> jsval \<Rightarrow> jsval) \<Rightarrow> (string \<times> jsval) list \<Rightarrow>
      (string \<times> jsval) list \<Rightarrow> (string \<times> jsval) list \<Rightarrow> (string \<times> jsval) list"
where
  "deepmerge arrayMerge target source =
     (case source of
        JArr s \<Rightarrow> (case target of JArr d \<Rightarrow> arrayMerge target source | _ \<Rightarrow> source)
      | JObj s \<Rightarrow> (case target of JObj t \<Rightarrow> JObj (mergeObject arrayMerge t t s) | _ \<Rightarrow> source)
      | _ \<Rightarrow> source)"
| "mergeObject arrayMerge target destination [] = destination"
| "mergeObject arrayMerge target destination ((key, v) # rest) =
     mergeObject arrayMerge target
       (AList.update key
          (case map_of target key of None \<Rightarrow> v | Some tv \<Rightarrow> deepmerge arrayMerge tv v)
          destination)
       rest"
  by pat_completeness auto
termination by lexicographic_order

declare deepmerge.simps [simp del]

text \<open>
  Modelled from the spec: \<open>get\<close> of \<open>utils/get\<close> is not part of the source tree. It is the
  nested lookup of the store's \<open>get\<close>: it follows the keys of the path through nested
  mappings, and returns the default value as soon as a segment is absent.
\<close>

fun utils_get :: "jsval \<Rightarrow> string list \<Rightarrow> jsval \<Rightarrow> jsval" where
  "utils_get object [] defaultValue = object"
| "utils_get (JObj kvs) (key # path) defaultValue =
     (case map_of kvs key of
        None \<Rightarrow> defaultValue
      | Some v \<Rightarrow> utils_get v path defaultValue)"
| "utils_get object (key # path) defaultValue = defaultValue"

section \<open>The store and the message bridge\<close>

text \<open>
  The three private fields of the class, and the messages it has handed to the bridge so
  far, oldest first. The model is the class in a browser context (\<open>window\<close> is defined),
  where the \<open>@client\<close> decorator lets every call through.
\<close>

record Remix =
  values' :: jsval
  isInitialized :: bool
  hasReceivedReadyResponse :: bool
  outbox :: "jsval list"

text \<open>
  A promise that has settled, or that never will: the bridge has no timeout, so a reply
  that never comes leaves the caller suspended for ever.
\<close>

datatype 'a promise = Resolved 'a | Rejected error | Pending

fun await :: "'a promise \<Rightarrow> ('a \<Rightarrow> 'b promise) \<Rightarrow> 'b promise" where
  "await (Resolved x) k = k x"
| "await (Rejected e) k = Rejected e"
| "await Pending k = Pending"

text \<open>
  The host frame, as far as a request sees it: for the name of an awaited reply, the data
  payload of the first message of that name the host sends, or \<open>None\<close> when it never
  sends one.
\<close>

type_synonym host = "string \<Rightarrow> jsval option"

text \<open>
  Modelled from the spec: the class \<open>KojiBridge\<close> is not part of the source tree.
  \<open>sendMessage\<close> dispatches one message to the host and returns nothing;
  \<open>sendMessageAndAwaitResponse\<close> dispatches the message in the same way and resumes with
  the data payload of the message that carries the expected name.
\<close>

definition sendMessage :: "jsval \<Rightarrow> Remix \<Rightarrow> Remix" where
  "sendMessage postMessage this = this\<lparr>outbox := outbox this @ [postMessage]\<rparr>"

definition sendMessageAndAwaitResponse ::
  "host \<Rightarrow> jsval \<Rightarrow> string \<Rightarrow> Remix \<Rightarrow> jsval promise \<times> Remix" where
  "sendMessageAndAwaitResponse host postMessage platformMessageName this =
     (case host platformMessageName of None \<Rightarrow> Pending | Some payload \<Rightarrow> Resolved payload,
      sendMessage postMessage this)"

text \<open>
  The constructor: the initial fields, and one callback registered with the bridge for the
  message \<open>KojiPreview.IsRemixing\<close>.

  Modelled from the spec: \<open>execCallbackOnMessage\<close> of the bridge runs the callback every
  time a message of that name arrives. \<open>receiveMessage\<close> is the arrival of a host message
  at the store: the registered callback is the only code of the class that runs then.
\<close>

definition new_Remix :: Remix where
  "new_Remix =
     \<lparr>values' = JObj [], isInitialized = False, hasReceivedReadyResponse = False, outbox = []\<rparr>"

definition receiveMessage :: "string \<Rightarrow> Remix \<Rightarrow> Remix" where
  "receiveMessage eventName this =
     (if eventName = ''KojiPreview.IsRemixing''
      then this\<lparr>hasReceivedReadyResponse := True\<rparr>
      else this)"

section \<open>The methods of the class\<close>

text \<open>
  A method returns what it returns or throws, together with the store as the call leaves
  it, so that a throw after an assignment would be visible.
\<close>

definition arrayMerge :: "jsval \<Rightarrow> jsval \<Rightarrow> jsval" where
  "arrayMerge dest source = source"

definition init_twice_message :: string where
  "init_twice_message = ''You are trying to initialize your remix data more than one time. Note that Koji.config() will automatically call this method.''"

definition set_message :: string where
  "set_message = ''It looks like you are trying to call the `Koji.remix.set()` method before calling `Koji.ready(). This will prevent data from being stored properly.`''"

definition finish_message :: string where
  "finish_message = ''It looks like you are trying to call the `Koji.remix.finish()` method before calling `Koji.ready(). This will result in unpredictable behavior in a remix preview.`''"

text \<open>The local variable \<open>overrides\<close> of \<open>init\<close>, computed from \<open>window.KOJI_OVERRIDES\<close>.\<close>

definition overrides :: "jsval \<Rightarrow> jsval" where
  "overrides KOJI_OVERRIDES =
     (if truthy (js_and KOJI_OVERRIDES (getProp KOJI_OVERRIDES ''overrides''))
      then js_or (getProp (getProp KOJI_OVERRIDES ''overrides'') ''remixData'') (JObj [])
      else JObj [])"

definition init :: "jsval \<Rightarrow> jsval \<Rightarrow> Remix \<Rightarrow> (error + unit) \<times> Remix" where
  "init KOJI_OVERRIDES remixData this =
     (if \<not> truthy remixData then (Inl (Error ''Unable to find remixData''), this)
      else if isInitialized this then (Inl (Error init_twice_message), this)
      else (Inr (),
            this\<lparr>isInitialized := True,
                 values' := deepmerge arrayMerge remixData (overrides KOJI_OVERRIDES)\<rparr>))"

definition get :: "string list option \<Rightarrow> jsval \<Rightarrow> Remix \<Rightarrow> (error + jsval) \<times> Remix" where
  "get path defaultValue this =
     (case path of
        None \<Rightarrow> (Inr (values' this), this)
      | Some p \<Rightarrow> (Inr (utils_get (values' this) p defaultValue), this))"

definition sendValues :: "host \<Rightarrow> Remix \<Rightarrow> bool promise \<times> Remix" where
  "sendValues host this =
     (let (response, this') =
        sendMessageAndAwaitResponse host
          (JObj [(''kojiEventName'', JStr ''KojiPreview.SetValue''),
                 (''data'', JObj [(''path'', JArr [JStr ''remixData'']),
                                  (''newValue'', values' this),
                                  (''skipUpdate'', JBool False)])])
          ''KojiPreview.DidChangeVcc'' this
      in (await response (\<lambda>data. Resolved (truthy data)), this'))"

definition set' :: "host \<Rightarrow> jsval \<Rightarrow> Remix \<Rightarrow> (error + bool promise) \<times> Remix" where
  "set' host newValue this =
     (if \<not> hasReceivedReadyResponse this then (Inl (Error set_message), this)
      else
        (let (result, this') =
           sendValues host (this\<lparr>values' := deepmerge arrayMerge (values' this) newValue\<rparr>)
         in (Inr result, this')))"

definition overwrite :: "host \<Rightarrow> jsval \<Rightarrow> Remix \<Rightarrow> (error + bool promise) \<times> Remix" where
  "overwrite host newValues this =
     (let (result, this') = sendValues host (this\<lparr>values' := newValues\<rparr>)
      in (Inr result, this'))"

definition finish :: "Remix \<Rightarrow> (error + unit) \<times> Remix" where
  "finish this =
     (if \<not> hasReceivedReadyResponse this then (Inl (Error finish_message), this)
      else (Inr (), sendMessage (JObj [(''kojiEventName'', JStr ''KojiPreview.Finish'')]) this))"

definition cancel :: "Remix \<Rightarrow> (error + unit) \<times> Remix" where
  "cancel this =
     (Inr (), sendMessage (JObj [(''kojiEventName'', JStr ''KojiPreview.Cancel'')]) this)"

text \<open>
  The two asynchronous relays. Reading a field of an \<open>undefined\<close> or \<open>null\<close> payload throws
  inside the \<open>async\<close> body, which rejects the promise.
\<close>

definition encryptValue :: "host \<Rightarrow> jsval \<Rightarrow> Remix \<Rightarrow> (error + jsval promise) \<times> Remix" where
  "encryptValue host rawValue this =
     (let (response, this') =
        sendMessageAndAwaitResponse host
          (JObj [(''kojiEventName'', JStr ''KojiPreview.EncryptValue''),
                 (''data'', JObj [(''plaintextValue'', rawValue)])])
          ''KojiPreview.ValueEncrypted'' this
      in (Inr (await response (\<lambda>data.
            if nullish data then Rejected TypeError
            else Resolved (getProp data ''encryptedValue''))), this'))"

definition decryptValue :: "host \<Rightarrow> jsval \<Rightarrow> Remix \<Rightarrow> (error + jsval promise) \<times> Remix" where
  "decryptValue host encryptedValue this =
     (let (response, this') =
        sendMessageAndAwaitResponse host
          (JObj [(''kojiEventName'', JStr ''KojiPreview.DecryptValue''),
                 (''data'', JObj [(''encryptedValue'', encryptedValue)])])
          ''KojiPreview.ValueDecrypted'' this
      in (Inr (await response (\<lambda>data.
            if nullish data then Rejected TypeError
            else Resolved (getProp data ''decryptedValue''))), this'))"

section \<open>Runs of the store\<close>

text \<open>
  What can happen to the store during the lifetime of the page: a call of one of its
  public methods, with the environment the call sees, or the arrival of a host message.
\<close>

datatype event =
    Init jsval jsval
  | Get "string list option" jsval
  | Set host jsval
  | Overwrite host jsval
  | Finish
  | Cancel
  | EncryptValue host jsval
  | DecryptValue host jsval
  | Message string

fun exec :: "event \<Rightarrow> Remix \<Rightarrow> Remix" where
  "exec (Init w remixData) this = snd (init w remixData this)"
| "exec (Get path defaultValue) this = snd (get path defaultValue this)"
| "exec (Set h newValue) this = snd (set' h newValue this)"
| "exec (Overwrite h newValues) this = snd (overwrite h newValues this)"
| "exec Finish this = snd (finish this)"
| "exec Cancel this = snd (cancel this)"
| "exec (EncryptValue h rawValue) this = snd (encryptValue h rawValue this)"
| "exec (DecryptValue h encryptedValue) this = snd (decryptValue h encryptedValue this)"
| "exec (Message eventName) this = receiveMessage eventName this"

fun run :: "event list \<Rightarrow> Remix \<Rightarrow> Remix" where
  "run [] this = this"
| "run (e # es) this = run es (exec e this)"

text \<open>
  Simulated hosts for concrete runs: one that never answers, and one that answers the
  awaited name \<open>n\<close> with the payload \<open>v\<close>.
\<close>

definition silent_host :: host where
  "silent_host = (\<lambda>name. None)"

definition host_replying :: "string \<Rightarrow> jsval \<Rightarrow> host" where
  "host_replying n v = (\<lambda>name. if name = n then Some v else None)"

text \<open>The value stored under a path of keys, if every segment is present.\<close>

fun stored :: "jsval \<Rightarrow> string list \<Rightarrow> jsval option" where
  "stored t [] = Some t"
| "stored (JObj kvs) (k # ks) = (case map_of kvs k of None \<Rightarrow> None | Some v \<Rightarrow> stored v ks)"
| "stored t (k # ks) = None"

section \<open>Facts about the helpers\<close>

lemma map_of_mergeObject:
  "distinct (map fst s) \<Longrightarrow>
   map_of (mergeObject am t d s) k =
     (case map_of s k of
        None \<Rightarrow> map_of d k
      | Some v \<Rightarrow> Some (case map_of t k of None \<Rightarrow> v | Some tv \<Rightarrow> deepmerge am tv v))"
proof (induction s arbitrary: d)
  case Nil
  then show ?case by simp
next
  case (Cons p rest)
  obtain key v where p: "p = (key, v)" by (cases p)
  from Cons.prems p have fresh: "map_of rest key = None" and dist: "distinct (map fst rest)"
    by (auto simp: map_of_eq_None_iff)
  show ?case
    using Cons.IH [OF dist] fresh by (simp add: p update_conv' split: option.splits)
qed

lemma deepmerge_array_source: "deepmerge arrayMerge t (JArr xs) = JArr xs"
  by (cases t) (simp_all add: deepmerge.simps arrayMerge_def)

lemma deepmerge_objects: "deepmerge am (JObj t) (JObj s) = JObj (mergeObject am t t s)"
  by (simp add: deepmerge.simps)

lemma overrides_present:
  "getProp (getProp w ''overrides'') ''remixData'' = JObj ov \<Longrightarrow> overrides w = JObj ov"
proof -
  assume r: "getProp (getProp w ''overrides'') ''remixData'' = JObj ov"
  then have "truthy (getProp w ''overrides'')"
    by (cases "getProp w ''overrides''") simp_all
  moreover from this have "truthy w"
    by (cases w) simp_all
  ultimately show ?thesis
    using r by (simp add: overrides_def js_and_def js_or_def)
qed

lemma overrides_eq:
  "overrides w =
     (if truthy w \<and> truthy (getProp w ''overrides'') \<and>
         truthy (getProp (getProp w ''overrides'') ''remixData'')
      then getProp (getProp w ''overrides'') ''remixData''
      else JObj [])"
  by (simp add: overrides_def js_and_def js_or_def)

lemma sendValues_eq:
  "sendValues h this =
     (case h ''KojiPreview.DidChangeVcc'' of None \<Rightarrow> Pending | Some a \<Rightarrow> Resolved (truthy a),
      this\<lparr>outbox := outbox this @
        [JObj [(''kojiEventName'', JStr ''KojiPreview.SetValue''),
               (''data'', JObj [(''path'', JArr [JStr ''remixData'']),
                                (''newValue'', values' this),
                                (''skipUpdate'', JBool False)])]]\<rparr>)"
  by (simp add: sendValues_def sendMessageAndAwaitResponse_def sendMessage_def
      split: option.splits)

lemma exec_ready: "hasReceivedReadyResponse this \<Longrightarrow> hasReceivedReadyResponse (exec e this)"
  by (cases e)
    (simp_all add: init_def get_def set'_def overwrite_def finish_def cancel_def
      encryptValue_def decryptValue_def sendValues_eq sendMessageAndAwaitResponse_def
      sendMessage_def receiveMessage_def split: option.splits)

lemma run_ready: "hasReceivedReadyResponse this \<Longrightarrow> hasReceivedReadyResponse (run es this)"
  by (induction es arbitrary: this) (simp_all add: exec_ready)

lemma exec_initialized: "isInitialized this \<Longrightarrow> isInitialized (exec e this)"
  by (cases e)
    (simp_all add: init_def get_def set'_def overwrite_def finish_def cancel_def
      encryptValue_def decryptValue_def sendValues_eq sendMessageAndAwaitResponse_def
      sendMessage_def receiveMessage_def split: option.splits)

lemma run_initialized: "isInitialized this \<Longrightarrow> isInitialized (run es this)"
  by (induction es arbitrary: this) (simp_all add: exec_initialized)

lemma utils_get_stored:
  "utils_get t p f = (case stored t p of None \<Rightarrow> f | Some v \<Rightarrow> v)"
  by (induction t p f rule: utils_get.induct) (simp_all split: option.splits)

section \<open>Initialization and reading\<close>

text \<open>
  C1. After a successful \<open>init\<close> with the default tree \<open>D\<close>, \<open>get\<close> without a path returns
  \<open>D\<close> merged with the host's overrides. The overrides are
  \<open>window.KOJI_OVERRIDES.overrides.remixData\<close>, and the empty mapping when any link of that
  chain is falsy. In the merge, a sequence of the overrides replaces whatever the defaults
  hold under the same key, merging nothing into \<open>D\<close> gives \<open>D\<close>, and two mappings are merged
  key by key: a key of the overrides only has the overrides' value, a key of the defaults
  only keeps its value, and a key of both has the merge of the two values.
\<close>

theorem init_get_deepmerge:
  assumes "fst (init w (JObj D) this) = Inr u"
  shows "fst (get None f (snd (init w (JObj D) this))) =
           Inr (deepmerge arrayMerge (JObj D) (overrides w))
       \<and> overrides w =
           (if truthy w \<and> truthy (getProp w ''overrides'') \<and>
               truthy (getProp (getProp w ''overrides'') ''remixData'')
            then getProp (getProp w ''overrides'') ''remixData''
            else JObj [])
       \<and> (getProp (getProp w ''overrides'') ''remixData'' = JObj ov \<longrightarrow>
            fst (get None f (snd (init w (JObj D) this))) =
              Inr (deepmerge arrayMerge (JObj D) (JObj ov)))
       \<and> deepmerge arrayMerge (JObj D) (JObj []) = JObj D
       \<and> (\<forall>t xs. deepmerge arrayMerge t (JArr xs) = JArr xs)
       \<and> (distinct (map fst ov) \<longrightarrow>
            (\<exists>m. deepmerge arrayMerge (JObj D) (JObj ov) = JObj m \<and>
               (\<forall>k. map_of m k =
                  (case map_of ov k of
                     None \<Rightarrow> map_of D k
                   | Some v \<Rightarrow>
                       Some (case map_of D k of
                               None \<Rightarrow> v
                             | Some dv \<Rightarrow> deepmerge arrayMerge dv v)))))"
proof -
  from assms have "snd (init w (JObj D) this) =
      this\<lparr>isInitialized := True, values' := deepmerge arrayMerge (JObj D) (overrides w)\<rparr>"
    by (simp add: init_def split: if_splits)
  then have got: "fst (get None f (snd (init w (JObj D) this))) =
      Inr (deepmerge arrayMerge (JObj D) (overrides w))"
    by (simp add: get_def)
  have empty: "deepmerge arrayMerge (JObj D) (JObj []) = JObj D"
    by (simp add: deepmerge_objects)
  have keys: "distinct (map fst ov) \<longrightarrow>
            (\<exists>m. deepmerge arrayMerge (JObj D) (JObj ov) = JObj m \<and>
               (\<forall>k. map_of m k =
                  (case map_of ov k of
                     None \<Rightarrow> map_of D k
                   | Some v \<Rightarrow>
                       Some (case map_of D k of
                               None \<Rightarrow> v
                             | Some dv \<Rightarrow> deepmerge arrayMerge dv v))))"
    by (simp add: deepmerge_objects map_of_mergeObject)
  have present: "getProp (getProp w ''overrides'') ''remixData'' = JObj ov \<longrightarrow>
            fst (get None f (snd (init w (JObj D) this))) =
              Inr (deepmerge arrayMerge (JObj D) (JObj ov))"
    using got by (simp add: overrides_present)
  show ?thesis
    using got empty keys present overrides_eq [of w] deepmerge_array_source
    by blast
qed

theorem init_get_deepmerge_witness:
  "fst (init
         (JObj [(''overrides'', JObj [(''remixData'',
            JObj [(''colors'', JObj [(''text'', JStr ''#000'')]), (''list'', JArr [JNum 3])])])])
         (JObj [(''colors'', JObj [(''bg'', JStr ''#fff'')]), (''list'', JArr [JNum 1, JNum 2])])
         new_Remix) = Inr ()
   \<and> distinct (map fst [(''colors'', JObj [(''text'', JStr ''#000'')]), (''list'', JArr [JNum 3])])
   \<and> fst (get None JUndefined (snd (init
         (JObj [(''overrides'', JObj [(''remixData'',
            JObj [(''colors'', JObj [(''text'', JStr ''#000'')]), (''list'', JArr [JNum 3])])])])
         (JObj [(''colors'', JObj [(''bg'', JStr ''#fff'')]), (''list'', JArr [JNum 1, JNum 2])])
         new_Remix))) =
       Inr (JObj [(''colors'', JObj [(''bg'', JStr ''#fff''), (''text'', JStr ''#000'')]),
                  (''list'', JArr [JNum 3])])"
proof -
  let ?ov = "[(''colors'', JObj [(''text'', JStr ''#000'')]), (''list'', JArr [JNum 3])]"
  let ?w = "JObj [(''overrides'', JObj [(''remixData'', JObj ?ov)])]"
  let ?D = "[(''colors'', JObj [(''bg'', JStr ''#fff'')]), (''list'', JArr [JNum 1, JNum 2])]"
  have ok: "fst (init ?w (JObj ?D) new_Remix) = Inr ()"
    by (simp add: init_def new_Remix_def)
  have here: "getProp (getProp ?w ''overrides'') ''remixData'' = JObj ?ov"
    by simp
  have dist: "distinct (map fst ?ov)"
    by simp
  from init_get_deepmerge [OF ok, of JUndefined ?ov] here
  have "fst (get None JUndefined (snd (init ?w (JObj ?D) new_Remix))) =
          Inr (deepmerge arrayMerge (JObj ?D) (JObj ?ov))"
    by blast
  then show ?thesis
    using ok dist by (simp add: deepmerge.simps arrayMerge_def)
qed

text \<open>
  C6. \<open>get\<close> never throws and leaves the store as it is, in every state of the store. With
  no path it returns the whole tree; with a path it returns the value stored under the path
  when every segment is present, at any depth, and the fallback otherwise. On the store as
  the constructor leaves it, that is the empty mapping and the fallback.
\<close>

theorem get_path_or_fallback:
  "get None f this = (Inr (values' this), this)
   \<and> get (Some p) f this =
       (Inr (case stored (values' this) p of None \<Rightarrow> f | Some v \<Rightarrow> v), this)
   \<and> get None f new_Remix = (Inr (JObj []), new_Remix)
   \<and> get (Some (k # ks)) f new_Remix = (Inr f, new_Remix)"
  by (simp add: get_def utils_get_stored new_Remix_def)

theorem get_path_or_fallback_witness:
  "get (Some [''colors'', ''bg'']) (JStr ''none'')
     (new_Remix\<lparr>values' := JObj [(''colors'', JObj [(''bg'', JStr ''#fff'')])]\<rparr>) =
     (Inr (JStr ''#fff''),
      new_Remix\<lparr>values' := JObj [(''colors'', JObj [(''bg'', JStr ''#fff'')])]\<rparr>)
   \<and> get (Some [''colors'', ''text'']) (JStr ''none'')
     (new_Remix\<lparr>values' := JObj [(''colors'', JObj [(''bg'', JStr ''#fff'')])]\<rparr>) =
     (Inr (JStr ''none''),
      new_Remix\<lparr>values' := JObj [(''colors'', JObj [(''bg'', JStr ''#fff'')])]\<rparr>)"
  using get_path_or_fallback
    [of "JStr ''none''" "new_Remix\<lparr>values' := JObj [(''colors'', JObj [(''bg'', JStr ''#fff'')])]\<rparr>"
      "[''colors'', ''bg'']"]
    get_path_or_fallback
    [of "JStr ''none''" "new_Remix\<lparr>values' := JObj [(''colors'', JObj [(''bg'', JStr ''#fff'')])]\<rparr>"
      "[''colors'', ''text'']"]
  by simp

section \<open>Writing and pushing\<close>

text \<open>
  C4. A push hands exactly one message to the bridge: the event \<open>KojiPreview.SetValue\<close>
  with the path \<open>["remixData"]\<close>, the whole current tree as the new value and \<open>skipUpdate\<close>
  false. It changes nothing else in the store. It awaits \<open>KojiPreview.DidChangeVcc\<close> and
  resolves with the truthiness of the payload of that message: true for a truthy payload,
  false for a falsy one such as \<open>undefined\<close>, \<open>null\<close> or the empty string; it stays pending
  when the host never answers.
\<close>

theorem sendValues_full_tree:
  "snd (sendValues h this) =
     this\<lparr>outbox := outbox this @
       [JObj [(''kojiEventName'', JStr ''KojiPreview.SetValue''),
              (''data'', JObj [(''path'', JArr [JStr ''remixData'']),
                               (''newValue'', values' this),
                               (''skipUpdate'', JBool False)])]]\<rparr>
   \<and> fst (sendValues h this) =
       (case h ''KojiPreview.DidChangeVcc'' of
          None \<Rightarrow> Pending
        | Some payload \<Rightarrow> Resolved (truthy payload))
   \<and> fst (sendValues (host_replying ''KojiPreview.DidChangeVcc'' payload) this) =
       Resolved (truthy payload)
   \<and> \<not> truthy JUndefined \<and> \<not> truthy JNull \<and> \<not> truthy (JStr [])"
  by (simp add: sendValues_eq host_replying_def)

theorem sendValues_full_tree_witness:
  "sendValues (host_replying ''KojiPreview.DidChangeVcc'' (JObj [(''path'', JArr [JStr ''remixData''])]))
     (new_Remix\<lparr>values' := JObj [(''a'', JNum 1), (''b'', JArr [])]\<rparr>) =
     (Resolved True,
      new_Remix\<lparr>values' := JObj [(''a'', JNum 1), (''b'', JArr [])],
        outbox :=
          [JObj [(''kojiEventName'', JStr ''KojiPreview.SetValue''),
                 (''data'', JObj [(''path'', JArr [JStr ''remixData'']),
                                  (''newValue'', JObj [(''a'', JNum 1), (''b'', JArr [])]),
                                  (''skipUpdate'', JBool False)])]]\<rparr>)
   \<and> fst (sendValues (host_replying ''KojiPreview.DidChangeVcc'' JNull) new_Remix) =
       Resolved False"
  using sendValues_full_tree
    [of "host_replying ''KojiPreview.DidChangeVcc'' (JObj [(''path'', JArr [JStr ''remixData''])])"
      "new_Remix\<lparr>values' := JObj [(''a'', JNum 1), (''b'', JArr [])]\<rparr>"
      "JObj [(''path'', JArr [JStr ''remixData''])]"]
    sendValues_full_tree [of "host_replying ''KojiPreview.DidChangeVcc'' JNull" new_Remix JNull]
  by (simp add: prod_eq_iff new_Remix_def host_replying_def)

text \<open>
  C2. Before the readiness signal \<open>set\<close> throws its error and leaves the store, and so the
  messages sent, as they were. After the signal it replaces the tree by the merge of the
  tree with the argument, hands exactly one \<open>KojiPreview.SetValue\<close> message with the whole
  merged tree to the bridge, and returns what the push of the merged tree returns. The
  merge is the one \<open>init\<close> performs, with the same \<open>arrayMerge\<close>: a mapping given to \<open>set\<close>
  is merged into the tree key by key, a key of the argument only has the argument's value,
  a key of the tree only keeps its value, a key of both has the merge of the two values,
  and a sequence of the argument replaces whatever the tree holds under its key.
\<close>

theorem set_gated_merge_push:
  "(\<not> hasReceivedReadyResponse this \<longrightarrow> set' h P this = (Inl (Error set_message), this))
   \<and> (hasReceivedReadyResponse this \<longrightarrow>
        set' h P this =
          (Inr (case h ''KojiPreview.DidChangeVcc'' of
                  None \<Rightarrow> Pending
                | Some a \<Rightarrow> Resolved (truthy a)),
           this\<lparr>values' := deepmerge arrayMerge (values' this) P,
                outbox := outbox this @
                  [JObj [(''kojiEventName'', JStr ''KojiPreview.SetValue''),
                         (''data'', JObj [(''path'', JArr [JStr ''remixData'']),
                                          (''newValue'', deepmerge arrayMerge (values' this) P),
                                          (''skipUpdate'', JBool False)])]]\<rparr>)
        \<and> fst (set' h P this) =
            Inr (fst (sendValues h (this\<lparr>values' := deepmerge arrayMerge (values' this) P\<rparr>))))
   \<and> (fst (init w D this) = Inr u \<longrightarrow>
        values' (snd (init w D this)) = deepmerge arrayMerge D (overrides w))
   \<and> (hasReceivedReadyResponse this \<and> values' this = JObj t \<and> distinct (map fst s) \<longrightarrow>
        (\<exists>m. values' (snd (set' h (JObj s) this)) = JObj m
           \<and> (\<forall>k. map_of m k =
                 (case map_of s k of
                    None \<Rightarrow> map_of t k
                  | Some v \<Rightarrow>
                      Some (case map_of t k of
                              None \<Rightarrow> v
                            | Some tv \<Rightarrow> deepmerge arrayMerge tv v)))
           \<and> (\<forall>k xs. map_of s k = Some (JArr xs) \<longrightarrow> map_of m k = Some (JArr xs))))
   \<and> (\<forall>tv xs. deepmerge arrayMerge tv (JArr xs) = JArr xs)"
proof -
  have gate: "\<not> hasReceivedReadyResponse this \<longrightarrow>
      set' h P this = (Inl (Error set_message), this)"
    by (simp add: set'_def)
  have push: "hasReceivedReadyResponse this \<longrightarrow>
        set' h P this =
          (Inr (case h ''KojiPreview.DidChangeVcc'' of
                  None \<Rightarrow> Pending
                | Some a \<Rightarrow> Resolved (truthy a)),
           this\<lparr>values' := deepmerge arrayMerge (values' this) P,
                outbox := outbox this @
                  [JObj [(''kojiEventName'', JStr ''KojiPreview.SetValue''),
                         (''data'', JObj [(''path'', JArr [JStr ''remixData'']),
                                          (''newValue'', deepmerge arrayMerge (values' this) P),
                                          (''skipUpdate'', JBool False)])]]\<rparr>)
        \<and> fst (set' h P this) =
            Inr (fst (sendValues h (this\<lparr>values' := deepmerge arrayMerge (values' this) P\<rparr>)))"
    by (simp add: set'_def sendValues_eq)
  have same: "fst (init w D this) = Inr u \<longrightarrow>
        values' (snd (init w D this)) = deepmerge arrayMerge D (overrides w)"
    by (simp add: init_def split: if_splits)
  have keys: "\<exists>m. values' (snd (set' h (JObj s) this)) = JObj m
           \<and> (\<forall>k. map_of m k =
                 (case map_of s k of
                    None \<Rightarrow> map_of t k
                  | Some v \<Rightarrow>
                      Some (case map_of t k of
                              None \<Rightarrow> v
                            | Some tv \<Rightarrow> deepmerge arrayMerge tv v)))
           \<and> (\<forall>k xs. map_of s k = Some (JArr xs) \<longrightarrow> map_of m k = Some (JArr xs))"
    if ready: "hasReceivedReadyResponse this" and tree: "values' this = JObj t"
      and dist: "distinct (map fst s)"
  proof -
    let ?m = "mergeObject arrayMerge t t s"
    from ready tree have stored: "values' (snd (set' h (JObj s) this)) = JObj ?m"
      by (simp add: set'_def sendValues_eq deepmerge_objects)
    have rule: "map_of ?m k =
        (case map_of s k of
           None \<Rightarrow> map_of t k
         | Some v \<Rightarrow>
             Some (case map_of t k of
                     None \<Rightarrow> v
                   | Some tv \<Rightarrow> deepmerge arrayMerge tv v))" for k
      using dist by (rule map_of_mergeObject)
    have arrays: "map_of ?m k = Some (JArr xs)" if "map_of s k = Some (JArr xs)" for k xs
      using that by (simp add: rule deepmerge_array_source split: option.splits)
    from stored rule arrays show ?thesis by blast
  qed
  from gate push same keys deepmerge_array_source show ?thesis
    by blast
qed

theorem set_gated_merge_push_witness:
  "\<not> hasReceivedReadyResponse new_Remix
   \<and> set' silent_host (JObj [(''list'', JArr [JNum 9])]) new_Remix =
       (Inl (Error set_message), new_Remix)
   \<and> hasReceivedReadyResponse
       (receiveMessage ''KojiPreview.IsRemixing''
          (new_Remix\<lparr>values' := JObj [(''list'', JArr [JNum 1, JNum 2]),
                                      (''colors'', JObj [(''bg'', JStr ''#fff'')])]\<rparr>))
   \<and> distinct (map fst [(''list'', JArr [JNum 9]), (''colors'', JObj [(''text'', JStr ''#000'')])])
   \<and> fst (init JUndefined (JObj [])
        (receiveMessage ''KojiPreview.IsRemixing''
          (new_Remix\<lparr>values' := JObj [(''list'', JArr [JNum 1, JNum 2]),
                                      (''colors'', JObj [(''bg'', JStr ''#fff'')])]\<rparr>))) = Inr ()
   \<and> set' (host_replying ''KojiPreview.DidChangeVcc'' (JBool True))
         (JObj [(''list'', JArr [JNum 9]), (''colors'', JObj [(''text'', JStr ''#000'')])])
         (receiveMessage ''KojiPreview.IsRemixing''
            (new_Remix\<lparr>values' := JObj [(''list'', JArr [JNum 1, JNum 2]),
                                        (''colors'', JObj [(''bg'', JStr ''#fff'')])]\<rparr>)) =
       (Inr (Resolved True),
        \<lparr>values' = JObj [(''list'', JArr [JNum 9]),
                          (''colors'', JObj [(''bg'', JStr ''#fff''), (''text'', JStr ''#000'')])],
         isInitialized = False, hasReceivedReadyResponse = True,
         outbox =
           [JObj [(''kojiEventName'', JStr ''KojiPreview.SetValue''),
                  (''data'', JObj [(''path'', JArr [JStr ''remixData'']),
                                   (''newValue'',
                                      JObj [(''list'', JArr [JNum 9]),
                                            (''colors'', JObj [(''bg'', JStr ''#fff''),
                                                               (''text'', JStr ''#000'')])]),
                                   (''skipUpdate'', JBool False)])]]\<rparr>)"
proof -
  let ?t = "[(''list'', JArr [JNum 1, JNum 2]), (''colors'', JObj [(''bg'', JStr ''#fff'')])]"
  let ?p = "[(''list'', JArr [JNum 9]), (''colors'', JObj [(''text'', JStr ''#000'')])]"
  let ?s = "receiveMessage ''KojiPreview.IsRemixing'' (new_Remix\<lparr>values' := JObj ?t\<rparr>)"
  let ?h = "host_replying ''KojiPreview.DidChangeVcc'' (JBool True)"
  have not_ready: "\<not> hasReceivedReadyResponse new_Remix"
    by (simp add: new_Remix_def)
  have ready: "hasReceivedReadyResponse ?s"
    by (simp add: receiveMessage_def)
  have tree: "values' ?s = JObj ?t"
    by (simp add: receiveMessage_def)
  have dist: "distinct (map fst ?p)"
    by simp
  have first: "fst (init JUndefined (JObj []) ?s) = Inr ()"
    by (simp add: init_def receiveMessage_def new_Remix_def)
  from set_gated_merge_push [of new_Remix silent_host "JObj [(''list'', JArr [JNum 9])]"]
    not_ready
  have before: "set' silent_host (JObj [(''list'', JArr [JNum 9])]) new_Remix =
      (Inl (Error set_message), new_Remix)"
    by blast
  from set_gated_merge_push [of ?s ?h "JObj ?p" JUndefined "JObj []" "()" ?t ?p] ready
  have "set' ?h (JObj ?p) ?s =
          (Inr (case ?h ''KojiPreview.DidChangeVcc'' of
                  None \<Rightarrow> Pending
                | Some a \<Rightarrow> Resolved (truthy a)),
           ?s\<lparr>values' := deepmerge arrayMerge (values' ?s) (JObj ?p),
                outbox := outbox ?s @
                  [JObj [(''kojiEventName'', JStr ''KojiPreview.SetValue''),
                         (''data'', JObj [(''path'', JArr [JStr ''remixData'']),
                                          (''newValue'',
                                             deepmerge arrayMerge (values' ?s) (JObj ?p)),
                                          (''skipUpdate'', JBool False)])]]\<rparr>)"
    by blast
  then have after: "set' ?h (JObj ?p) ?s =
       (Inr (Resolved True),
        \<lparr>values' = JObj [(''list'', JArr [JNum 9]),
                          (''colors'', JObj [(''bg'', JStr ''#fff''), (''text'', JStr ''#000'')])],
         isInitialized = False, hasReceivedReadyResponse = True,
         outbox =
           [JObj [(''kojiEventName'', JStr ''KojiPreview.SetValue''),
                  (''data'', JObj [(''path'', JArr [JStr ''remixData'']),
                                   (''newValue'',
                                      JObj [(''list'', JArr [JNum 9]),
                                            (''colors'', JObj [(''bg'', JStr ''#fff''),
                                                               (''text'', JStr ''#000'')])]),
                                   (''skipUpdate'', JBool False)])]]\<rparr>)"
    by (simp add: receiveMessage_def new_Remix_def host_replying_def deepmerge.simps
        arrayMerge_def)
  show ?thesis
    using not_ready ready dist first before after by blast
qed

text \<open>
  C3. \<open>overwrite\<close> checks nothing: in every state of the store, also before \<open>init\<close> and
  before the readiness signal, where \<open>set\<close> throws, it returns a promise. It replaces the
  tree by its argument, so that \<open>get\<close> without a path then returns exactly the argument, and
  it performs the push of \<open>set\<close> on the new tree: one \<open>KojiPreview.SetValue\<close> message with
  the argument as the new value.
\<close>

theorem overwrite_replaces_and_pushes:
  "overwrite h T this =
     (Inr (fst (sendValues h (this\<lparr>values' := T\<rparr>))), snd (sendValues h (this\<lparr>values' := T\<rparr>)))
   \<and> snd (overwrite h T this) =
       this\<lparr>values' := T,
            outbox := outbox this @
              [JObj [(''kojiEventName'', JStr ''KojiPreview.SetValue''),
                     (''data'', JObj [(''path'', JArr [JStr ''remixData'']),
                                      (''newValue'', T),
                                      (''skipUpdate'', JBool False)])]]\<rparr>
   \<and> fst (get None f (snd (overwrite h T this))) = Inr T
   \<and> fst (overwrite h T new_Remix) = Inr (fst (sendValues h (new_Remix\<lparr>values' := T\<rparr>)))
   \<and> fst (set' h T new_Remix) = Inl (Error set_message)"
  by (simp add: overwrite_def sendValues_eq get_def set'_def new_Remix_def)

theorem overwrite_replaces_and_pushes_witness:
  "snd (overwrite silent_host (JObj [(''myColor'', JStr ''red'')]) new_Remix) =
     \<lparr>values' = JObj [(''myColor'', JStr ''red'')],
      isInitialized = False, hasReceivedReadyResponse = False,
      outbox =
        [JObj [(''kojiEventName'', JStr ''KojiPreview.SetValue''),
               (''data'', JObj [(''path'', JArr [JStr ''remixData'']),
                                (''newValue'', JObj [(''myColor'', JStr ''red'')]),
                                (''skipUpdate'', JBool False)])]]\<rparr>
   \<and> fst (get None JUndefined
        (snd (overwrite silent_host (JObj [(''myColor'', JStr ''red'')]) new_Remix))) =
       Inr (JObj [(''myColor'', JStr ''red'')])"
proof -
  let ?T = "JObj [(''myColor'', JStr ''red'')]"
  from overwrite_replaces_and_pushes [of silent_host ?T new_Remix JUndefined]
  have pushed: "snd (overwrite silent_host ?T new_Remix) =
       new_Remix\<lparr>values' := ?T,
            outbox := outbox new_Remix @
              [JObj [(''kojiEventName'', JStr ''KojiPreview.SetValue''),
                     (''data'', JObj [(''path'', JArr [JStr ''remixData'']),
                                      (''newValue'', ?T),
                                      (''skipUpdate'', JBool False)])]]\<rparr>"
    and read: "fst (get None JUndefined (snd (overwrite silent_host ?T new_Remix))) = Inr ?T"
    by blast+
  from pushed have "snd (overwrite silent_host ?T new_Remix) =
     \<lparr>values' = ?T, isInitialized = False, hasReceivedReadyResponse = False,
      outbox =
        [JObj [(''kojiEventName'', JStr ''KojiPreview.SetValue''),
               (''data'', JObj [(''path'', JArr [JStr ''remixData'']),
                                (''newValue'', ?T),
                                (''skipUpdate'', JBool False)])]]\<rparr>"
    by (simp add: new_Remix_def)
  with read show ?thesis by blast
qed

section \<open>The readiness flag\<close>

text \<open>
  C5. The constructor leaves the readiness flag false; the host message
  \<open>KojiPreview.IsRemixing\<close> sets it; and no sequence of method calls (\<open>init\<close>, \<open>get\<close>,
  \<open>set\<close>, \<open>overwrite\<close>, \<open>finish\<close>, \<open>cancel\<close>, \<open>encryptValue\<close>, \<open>decryptValue\<close>) and host
  messages clears it again. So once a call of \<open>set\<close> or of \<open>finish\<close> has passed the
  readiness check, every later call of \<open>set\<close> and of \<open>finish\<close> passes it too.
\<close>

theorem ready_flag_monotone:
  "\<not> hasReceivedReadyResponse new_Remix
   \<and> hasReceivedReadyResponse (receiveMessage ''KojiPreview.IsRemixing'' this)
   \<and> (hasReceivedReadyResponse this \<longrightarrow> hasReceivedReadyResponse (run es this))
   \<and> (fst (set' h P this) = Inr r \<longrightarrow>
        fst (set' h' P' (run es (snd (set' h P this)))) \<noteq> Inl (Error set_message)
        \<and> fst (finish (run es (snd (set' h P this)))) = Inr ())
   \<and> (fst (finish this) = Inr u \<longrightarrow>
        fst (set' h' P' (run es (snd (finish this)))) \<noteq> Inl (Error set_message)
        \<and> fst (finish (run es (snd (finish this)))) = Inr ())"
proof -
  have pass: "fst (set' h' P' s) \<noteq> Inl (Error set_message) \<and> fst (finish s) = Inr ()"
    if "hasReceivedReadyResponse s" for s
    using that by (simp add: set'_def finish_def sendValues_eq)
  have after_set: "hasReceivedReadyResponse (run es (snd (set' h P this)))"
    if "fst (set' h P this) = Inr r"
  proof -
    from that have "hasReceivedReadyResponse this"
      by (simp add: set'_def split: if_splits)
    then have "hasReceivedReadyResponse (snd (set' h P this))"
      by (simp add: set'_def sendValues_eq)
    then show ?thesis by (rule run_ready)
  qed
  have after_finish: "hasReceivedReadyResponse (run es (snd (finish this)))"
    if "fst (finish this) = Inr u"
  proof -
    from that have "hasReceivedReadyResponse this"
      by (simp add: finish_def split: if_splits)
    then have "hasReceivedReadyResponse (snd (finish this))"
      by (simp add: finish_def sendMessage_def)
    then show ?thesis by (rule run_ready)
  qed
  show ?thesis
    using pass after_set after_finish run_ready [of this es]
    by (simp add: new_Remix_def receiveMessage_def)
qed

theorem ready_flag_monotone_witness:
  "hasReceivedReadyResponse (receiveMessage ''KojiPreview.IsRemixing'' new_Remix)
   \<and> fst (set' silent_host (JObj []) (receiveMessage ''KojiPreview.IsRemixing'' new_Remix)) =
       Inr Pending
   \<and> fst (finish (receiveMessage ''KojiPreview.IsRemixing'' new_Remix)) = Inr ()
   \<and> hasReceivedReadyResponse
       (run [Init JUndefined (JObj []), Overwrite silent_host JNull, Cancel]
          (receiveMessage ''KojiPreview.IsRemixing'' new_Remix))
   \<and> fst (finish (run [Init JUndefined (JObj []), Overwrite silent_host JNull, Cancel]
        (snd (set' silent_host (JObj []) (receiveMessage ''KojiPreview.IsRemixing'' new_Remix)))))
       = Inr ()
   \<and> fst (finish (run [Init JUndefined (JObj []), Overwrite silent_host JNull, Cancel]
        (snd (finish (receiveMessage ''KojiPreview.IsRemixing'' new_Remix))))) = Inr ()"
proof -
  let ?s = "receiveMessage ''KojiPreview.IsRemixing'' new_Remix"
  let ?es = "[Init JUndefined (JObj []), Overwrite silent_host JNull, Cancel]"
  have ready: "hasReceivedReadyResponse ?s"
    by (simp add: receiveMessage_def)
  have set_ok: "fst (set' silent_host (JObj []) ?s) = Inr Pending"
    by (simp add: set'_def sendValues_eq receiveMessage_def silent_host_def)
  have finish_ok: "fst (finish ?s) = Inr ()"
    by (simp add: finish_def receiveMessage_def)
  from ready_flag_monotone [of ?s ?es silent_host "JObj []" Pending silent_host "JObj []" "()"]
    ready set_ok finish_ok
  show ?thesis by blast
qed

section \<open>Errors\<close>

text \<open>
  C7, as the code has it. Once \<open>init\<close> has succeeded, every later call of \<open>init\<close>, whatever
  happened to the store in between, throws and leaves the store, and so its tree, as it
  was. The error is the one for a second initialization when the argument is truthy; when
  the argument is falsy it is \<open>Unable to find remixData\<close>, because the check of the
  argument comes first.
\<close>

theorem init_again_fails:
  assumes "fst (init w D this) = Inr u"
  shows "init w' x (run es (snd (init w D this))) =
           (Inl (Error (if truthy x then init_twice_message else ''Unable to find remixData'')),
            run es (snd (init w D this)))"
proof -
  from assms have "isInitialized (snd (init w D this))"
    by (simp add: init_def split: if_splits)
  then have "isInitialized (run es (snd (init w D this)))"
    by (rule run_initialized)
  then show ?thesis
    by (simp add: init_def)
qed

theorem init_again_fails_witness:
  "fst (init JUndefined (JObj []) new_Remix) = Inr ()
   \<and> init JUndefined (JObj [(''a'', JNum 1)])
       (run [Message ''KojiPreview.IsRemixing''] (snd (init JUndefined (JObj []) new_Remix))) =
       (Inl (Error init_twice_message),
        run [Message ''KojiPreview.IsRemixing''] (snd (init JUndefined (JObj []) new_Remix)))"
proof -
  have ok: "fst (init JUndefined (JObj []) new_Remix) = Inr ()"
    by (simp add: init_def new_Remix_def)
  from init_again_fails
    [OF ok, of JUndefined "JObj [(''a'', JNum 1)]" "[Message ''KojiPreview.IsRemixing'']"]
  show ?thesis using ok by simp
qed

text \<open>
  C7, as stated, fails: after a successful \<open>init\<close>, a second call without an argument does
  not throw the error for a second initialization.
\<close>

theorem init_again_counterexample:
  "fst (init JUndefined (JObj []) new_Remix) = Inr ()
   \<and> fst (init JUndefined JUndefined (snd (init JUndefined (JObj []) new_Remix))) =
       Inl (Error ''Unable to find remixData'')
   \<and> fst (init JUndefined JUndefined (snd (init JUndefined (JObj []) new_Remix))) \<noteq>
       Inl (Error init_twice_message)"
  by (simp add: init_def new_Remix_def init_twice_message_def)

text \<open>
  C9. When \<open>init\<close>, \<open>set\<close> or \<open>finish\<close> throws, the store after the call is the store before
  it: the tree, the two flags and the messages sent. In particular an \<open>init\<close> that throws
  for a falsy argument leaves the store uninitialized, and an \<open>init\<close> with truthy defaults
  after it succeeds.
\<close>

theorem failure_atomicity:
  "(fst (init w x this) = Inl e1 \<longrightarrow> snd (init w x this) = this)
   \<and> (fst (set' h P this) = Inl e2 \<longrightarrow> snd (set' h P this) = this)
   \<and> (fst (finish this) = Inl e3 \<longrightarrow> snd (finish this) = this)
   \<and> (\<not> truthy x \<and> \<not> isInitialized this \<and> truthy D \<longrightarrow>
        init w x this = (Inl (Error ''Unable to find remixData''), this)
        \<and> fst (init w D (snd (init w x this))) = Inr ())"
  by (simp add: init_def set'_def finish_def sendValues_eq sendMessage_def)

theorem failure_atomicity_witness:
  "fst (init JUndefined JUndefined new_Remix) = Inl (Error ''Unable to find remixData'')
   \<and> fst (set' silent_host (JObj []) new_Remix) = Inl (Error set_message)
   \<and> fst (finish new_Remix) = Inl (Error finish_message)
   \<and> snd (init JUndefined JUndefined new_Remix) = new_Remix
   \<and> snd (set' silent_host (JObj []) new_Remix) = new_Remix
   \<and> snd (finish new_Remix) = new_Remix
   \<and> fst (init JUndefined (JObj []) (snd (init JUndefined JUndefined new_Remix))) = Inr ()"
proof -
  have a: "fst (init JUndefined JUndefined new_Remix) = Inl (Error ''Unable to find remixData'')"
    by (simp add: init_def)
  have b: "fst (set' silent_host (JObj []) new_Remix) = Inl (Error set_message)"
    by (simp add: set'_def new_Remix_def)
  have c: "fst (finish new_Remix) = Inl (Error finish_message)"
    by (simp add: finish_def new_Remix_def)
  have d: "\<not> truthy JUndefined \<and> \<not> isInitialized new_Remix \<and> truthy (JObj [])"
    by (simp add: new_Remix_def)
  from failure_atomicity
    [of JUndefined JUndefined new_Remix "Error ''Unable to find remixData''" silent_host "JObj []"
      "Error set_message" "Error finish_message" "JObj []"]
    a b c d
  show ?thesis by blast
qed

text \<open>
  C10. \<open>init\<close> throws \<open>Unable to find remixData\<close> for every falsy argument, not only for
  \<open>undefined\<close> and \<open>null\<close>: \<open>0\<close>, the empty string, \<open>false\<close> and \<open>NaN\<close> are falsy values that
  are neither. A call of \<open>init\<close> succeeds exactly when its argument is truthy and the store
  is not yet initialized.
\<close>

theorem init_rejects_falsy:
  "(\<not> truthy x \<longrightarrow> init w x this = (Inl (Error ''Unable to find remixData''), this))
   \<and> \<not> truthy (JNum 0) \<and> \<not> truthy (JStr '''') \<and> \<not> truthy (JBool False) \<and> \<not> truthy JNaN
   \<and> \<not> nullish (JNum 0) \<and> \<not> nullish (JStr '''') \<and> \<not> nullish (JBool False) \<and> \<not> nullish JNaN
   \<and> (fst (init w x this) = Inr () \<longleftrightarrow> truthy x \<and> \<not> isInitialized this)"
  by (simp add: init_def)

theorem init_rejects_falsy_witness:
  "init JUndefined (JNum 0) new_Remix = (Inl (Error ''Unable to find remixData''), new_Remix)
   \<and> init JUndefined (JStr '''') new_Remix = (Inl (Error ''Unable to find remixData''), new_Remix)
   \<and> init JUndefined (JBool False) new_Remix =
       (Inl (Error ''Unable to find remixData''), new_Remix)
   \<and> init JUndefined JNaN new_Remix = (Inl (Error ''Unable to find remixData''), new_Remix)
   \<and> fst (init JUndefined (JNum 1) new_Remix) = Inr ()"
proof -
  have fresh: "\<not> isInitialized new_Remix"
    by (simp add: new_Remix_def)
  from init_rejects_falsy [of "JNum 0" JUndefined new_Remix]
    init_rejects_falsy [of "JStr ''''" JUndefined new_Remix]
    init_rejects_falsy [of "JBool False" JUndefined new_Remix]
    init_rejects_falsy [of JNaN JUndefined new_Remix]
    init_rejects_falsy [of "JNum 1" JUndefined new_Remix] fresh
  show ?thesis by simp
qed

section \<open>The encryption relays\<close>

text \<open>
  What the relays do with a reply that carries no payload: the read of the field throws
  inside the asynchronous body, so the promise is rejected. The wire format gives the
  replies \<open>KojiPreview.ValueEncrypted\<close> and \<open>KojiPreview.ValueDecrypted\<close> the data
  \<open>{encryptedValue}\<close> and \<open>{decryptedValue}\<close>, so such a reply is outside the protocol.
\<close>

lemma relay_nullish_payload_rejects:
  "nullish r \<Longrightarrow>
   (h ''KojiPreview.ValueEncrypted'' = Some r \<longrightarrow>
      fst (encryptValue h v this) = Inr (Rejected TypeError))
   \<and> (h ''KojiPreview.ValueDecrypted'' = Some r \<longrightarrow>
      fst (decryptValue h v this) = Inr (Rejected TypeError))"
  by (simp add: encryptValue_def decryptValue_def sendMessageAndAwaitResponse_def)

text \<open>
  C8. For every value \<open>v\<close> and every host, \<open>encryptValue\<close> hands exactly one message to the
  bridge, the event \<open>KojiPreview.EncryptValue\<close> with the data \<open>{plaintextValue: v}\<close> and \<open>v\<close>
  as it was given, and changes nothing else in the store. It awaits the reply named
  \<open>KojiPreview.ValueEncrypted\<close> and resolves with the field \<open>encryptedValue\<close> of the reply's
  payload, as the host supplied it: for the payload \<open>{encryptedValue: x}\<close> of the wire
  format that is \<open>x\<close>, and the same holds for every payload other than \<open>undefined\<close> and
  \<open>null\<close>. It stays pending when the host never replies. \<open>decryptValue\<close> is the same
  relay through \<open>KojiPreview.DecryptValue\<close> with the data \<open>{encryptedValue: v}\<close>, the reply
  \<open>KojiPreview.ValueDecrypted\<close> and the field \<open>decryptedValue\<close>.
\<close>

theorem relay_encrypt_decrypt:
  "snd (encryptValue h v this) =
     this\<lparr>outbox := outbox this @
       [JObj [(''kojiEventName'', JStr ''KojiPreview.EncryptValue''),
              (''data'', JObj [(''plaintextValue'', v)])]]\<rparr>
   \<and> snd (decryptValue h v this) =
     this\<lparr>outbox := outbox this @
       [JObj [(''kojiEventName'', JStr ''KojiPreview.DecryptValue''),
              (''data'', JObj [(''encryptedValue'', v)])]]\<rparr>
   \<and> (h ''KojiPreview.ValueEncrypted'' = Some r \<and> \<not> nullish r \<longrightarrow>
        fst (encryptValue h v this) = Inr (Resolved (getProp r ''encryptedValue'')))
   \<and> (h ''KojiPreview.ValueDecrypted'' = Some r' \<and> \<not> nullish r' \<longrightarrow>
        fst (decryptValue h v this) = Inr (Resolved (getProp r' ''decryptedValue'')))
   \<and> (h ''KojiPreview.ValueEncrypted'' = Some (JObj [(''encryptedValue'', x)]) \<longrightarrow>
        fst (encryptValue h v this) = Inr (Resolved x))
   \<and> (h ''KojiPreview.ValueDecrypted'' = Some (JObj [(''decryptedValue'', y)]) \<longrightarrow>
        fst (decryptValue h v this) = Inr (Resolved y))
   \<and> (h ''KojiPreview.ValueEncrypted'' = None \<longrightarrow> fst (encryptValue h v this) = Inr Pending)
   \<and> (h ''KojiPreview.ValueDecrypted'' = None \<longrightarrow> fst (decryptValue h v this) = Inr Pending)"
proof -
  have sent: "snd (encryptValue h v this) =
     this\<lparr>outbox := outbox this @
       [JObj [(''kojiEventName'', JStr ''KojiPreview.EncryptValue''),
              (''data'', JObj [(''plaintextValue'', v)])]]\<rparr>
   \<and> snd (decryptValue h v this) =
     this\<lparr>outbox := outbox this @
       [JObj [(''kojiEventName'', JStr ''KojiPreview.DecryptValue''),
              (''data'', JObj [(''encryptedValue'', v)])]]\<rparr>"
    by (simp add: encryptValue_def decryptValue_def sendMessageAndAwaitResponse_def
        sendMessage_def)
  have enc: "fst (encryptValue h v this) = Inr (Resolved (getProp p ''encryptedValue''))"
    if "h ''KojiPreview.ValueEncrypted'' = Some p" and "\<not> nullish p" for p
    using that by (simp add: encryptValue_def sendMessageAndAwaitResponse_def)
  have dec: "fst (decryptValue h v this) = Inr (Resolved (getProp p ''decryptedValue''))"
    if "h ''KojiPreview.ValueDecrypted'' = Some p" and "\<not> nullish p" for p
    using that by (simp add: decryptValue_def sendMessageAndAwaitResponse_def)
  have enc_wire: "fst (encryptValue h v this) = Inr (Resolved x)"
    if "h ''KojiPreview.ValueEncrypted'' = Some (JObj [(''encryptedValue'', x)])"
    using enc [OF that] by simp
  have dec_wire: "fst (decryptValue h v this) = Inr (Resolved y)"
    if "h ''KojiPreview.ValueDecrypted'' = Some (JObj [(''decryptedValue'', y)])"
    using dec [OF that] by simp
  have silent: "(h ''KojiPreview.ValueEncrypted'' = None \<longrightarrow>
        fst (encryptValue h v this) = Inr Pending)
      \<and> (h ''KojiPreview.ValueDecrypted'' = None \<longrightarrow>
        fst (decryptValue h v this) = Inr Pending)"
    by (simp add: encryptValue_def decryptValue_def sendMessageAndAwaitResponse_def)
  from sent enc dec enc_wire dec_wire silent show ?thesis
    by blast
qed

theorem relay_encrypt_decrypt_witness:
  "encryptValue
     (host_replying ''KojiPreview.ValueEncrypted'' (JObj [(''encryptedValue'', JStr ''abc'')]))
     (JStr ''secret'') new_Remix =
     (Inr (Resolved (JStr ''abc'')),
      \<lparr>values' = JObj [], isInitialized = False, hasReceivedReadyResponse = False,
       outbox = [JObj [(''kojiEventName'', JStr ''KojiPreview.EncryptValue''),
                       (''data'', JObj [(''plaintextValue'', JStr ''secret'')])]]\<rparr>)
   \<and> decryptValue
     (host_replying ''KojiPreview.ValueDecrypted'' (JObj [(''decryptedValue'', JStr ''secret'')]))
     (JStr ''abc'') new_Remix =
     (Inr (Resolved (JStr ''secret'')),
      \<lparr>values' = JObj [], isInitialized = False, hasReceivedReadyResponse = False,
       outbox = [JObj [(''kojiEventName'', JStr ''KojiPreview.DecryptValue''),
                       (''data'', JObj [(''encryptedValue'', JStr ''abc'')])]]\<rparr>)
   \<and> fst (encryptValue silent_host (JStr ''secret'') new_Remix) = Inr Pending
   \<and> fst (decryptValue silent_host (JStr ''abc'') new_Remix) = Inr Pending"
proof -
  let ?e = "JObj [(''encryptedValue'', JStr ''abc'')]"
  let ?d = "JObj [(''decryptedValue'', JStr ''secret'')]"
  let ?he = "host_replying ''KojiPreview.ValueEncrypted'' ?e"
  let ?hd = "host_replying ''KojiPreview.ValueDecrypted'' ?d"
  have he: "?he ''KojiPreview.ValueEncrypted'' = Some ?e \<and> \<not> nullish ?e"
    and hd: "?hd ''KojiPreview.ValueDecrypted'' = Some ?d \<and> \<not> nullish ?d"
    by (simp_all add: host_replying_def)
  have quiet: "silent_host ''KojiPreview.ValueEncrypted'' = None"
    "silent_host ''KojiPreview.ValueDecrypted'' = None"
    by (simp_all add: silent_host_def)
  from relay_encrypt_decrypt [of ?he "JStr ''secret''" new_Remix ?e ?d "JStr ''abc''"] he
  have enc_result: "fst (encryptValue ?he (JStr ''secret'') new_Remix) = Inr (Resolved (JStr ''abc''))"
    and enc_sent: "snd (encryptValue ?he (JStr ''secret'') new_Remix) =
       new_Remix\<lparr>outbox := outbox new_Remix @
         [JObj [(''kojiEventName'', JStr ''KojiPreview.EncryptValue''),
                (''data'', JObj [(''plaintextValue'', JStr ''secret'')])]]\<rparr>"
    by simp_all
  from relay_encrypt_decrypt [of ?hd "JStr ''abc''" new_Remix ?e ?d _ "JStr ''secret''"] hd
  have dec_result: "fst (decryptValue ?hd (JStr ''abc'') new_Remix) = Inr (Resolved (JStr ''secret''))"
    and dec_sent: "snd (decryptValue ?hd (JStr ''abc'') new_Remix) =
       new_Remix\<lparr>outbox := outbox new_Remix @
         [JObj [(''kojiEventName'', JStr ''KojiPreview.DecryptValue''),
                (''data'', JObj [(''encryptedValue'', JStr ''abc'')])]]\<rparr>"
    by simp_all
  from relay_encrypt_decrypt [of silent_host "JStr ''secret''" new_Remix] quiet
  have enc_quiet: "fst (encryptValue silent_host (JStr ''secret'') new_Remix) = Inr Pending"
    by blast
  from relay_encrypt_decrypt [of silent_host "JStr ''abc''" new_Remix] quiet
  have dec_quiet: "fst (decryptValue silent_host (JStr ''abc'') new_Remix) = Inr Pending"
    by blast
  from enc_result enc_sent dec_result dec_sent enc_quiet dec_quiet show ?thesis
    by (simp add: prod_eq_iff new_Remix_def)
qed

end
